theory Spec2Isabelle
  imports Complex_Main
begin

section \<open>Values of the project tracker\<close>

text \<open>
  The repository holds the same small application at three stages: the file
  \<^verbatim>\<open>part_000\<close> (the latest: list views filter by status and clear before
  redrawing), the file \<^verbatim>\<open>part_001\<close> (an earlier copy: the same store, validation
  and form, but list views that neither filter nor clear) and \<^verbatim>\<open>app.ts\<close> (the first
  copy, whose store has no listeners). Definitions without a suffix embed
  \<^verbatim>\<open>part_000\<close>; the store, \<open>validate\<close> and the form are literally the same code in
  \<^verbatim>\<open>part_001\<close>. Definitions with the suffix \<open>_part001\<close> embed the list view of
  \<^verbatim>\<open>part_001\<close> where it differs.
\<close>

subsection \<open>Numbers and strings\<close>

text \<open>
  A JavaScript \<open>number\<close>: a finite value (modelled by the real it denotes; every
  finite double is a real, and comparison of doubles is comparison of these reals),
  the two infinities, or NaN.
\<close>

datatype number = Fin real | PosInf | NegInf | NaN

text \<open>\<open>a > b\<close> on numbers: false whenever an operand is NaN.\<close>

fun number_gt :: "number \<Rightarrow> number \<Rightarrow> bool" where
  "number_gt (Fin a) (Fin b) = (a > b)"
| "number_gt PosInf (Fin b) = True"
| "number_gt PosInf NegInf = True"
| "number_gt (Fin a) NegInf = True"
| "number_gt _ _ = False"

text \<open>\<open>a < b\<close> on numbers is \<open>b > a\<close>.\<close>

definition number_lt :: "number \<Rightarrow> number \<Rightarrow> bool" where
  "number_lt a b = number_gt b a"

text \<open>
  A string is a list of code units; a \<open>char\<close> stands for the UTF-16 code unit of the
  same number (0 to 255), so \<open>length\<close> is the \<open>.length\<close> of the source. The white
  space and line terminators of \<open>String.prototype.trim\<close> in that range are TAB, LF,
  VT, FF, CR, SP and NBSP.
\<close>

definition isWhiteSpace :: "char \<Rightarrow> bool" where
  "isWhiteSpace c = ((of_char c :: nat) \<in> {9, 10, 11, 12, 13, 32, 160})"

definition trim :: "string \<Rightarrow> string" where
  "trim s = rev (dropWhile isWhiteSpace (rev (dropWhile isWhiteSpace s)))"

subsection \<open>Validation\<close>

text \<open>
  \<^verbatim>\<open>interface Validatable { value: string | number, required?: boolean,
  minLength?: number, maxLength?: number, min?: number, max?: number }\<close>.
  An optional field that is absent is \<open>None\<close>.
\<close>

datatype jsvalue = Str string | Num number

record Validatable =
  val :: jsvalue
  required :: "bool option"
  minLength :: "number option"
  maxLength :: "number option"
  min_val :: "number option"
  max_val :: "number option"

text \<open>
  \<^verbatim>\<open>object.value.toString().trim().length !== 0\<close>. For a string, \<open>toString\<close> is
  the string itself. For a number, \<open>toString\<close> yields digits, a sign, a point, an
  exponent, \<open>Infinity\<close> or \<open>NaN\<close>: never an empty string and never white space,
  so the test holds.
\<close>

fun toString_trim_nonempty :: "jsvalue \<Rightarrow> bool" where
  "toString_trim_nonempty (Str s) = (length (trim s) \<noteq> 0)"
| "toString_trim_nonempty (Num n) = True"

text \<open>
  \<open>validate\<close>, statement by statement: \<open>isValid\<close> starts true and each \<open>if\<close>
  whose guard holds conjoins one test. \<^verbatim>\<open>if (object.required)\<close> is taken when the
  field is present and true; \<^verbatim>\<open>object.minLength != null\<close> when the field is
  present (also when it is 0); \<^verbatim>\<open>typeof object.value === 'string'\<close> is the
  constructor \<open>Str\<close>, \<^verbatim>\<open>'number'\<close> the constructor \<open>Num\<close>.
\<close>

definition validate :: "Validatable \<Rightarrow> bool" where
  "validate object =
    (let isValid = True;
         isValid = (if required object = Some True
                    then isValid \<and> toString_trim_nonempty (val object)
                    else isValid);
         isValid = (case (minLength object, val object) of
                      (Some m, Str s) \<Rightarrow> isValid \<and> number_gt (Fin (real (length s))) m
                    | _ \<Rightarrow> isValid);
         isValid = (case (maxLength object, val object) of
                      (Some m, Str s) \<Rightarrow> isValid \<and> number_lt (Fin (real (length s))) m
                    | _ \<Rightarrow> isValid);
         isValid = (case (min_val object, val object) of
                      (Some m, Num x) \<Rightarrow> isValid \<and> number_gt x m
                    | _ \<Rightarrow> isValid);
         isValid = (case (max_val object, val object) of
                      (Some m, Num x) \<Rightarrow> isValid \<and> number_lt x m
                    | _ \<Rightarrow> isValid)
     in isValid)"

text \<open>
  The configuration of \<open>gatherUserInput\<close>:
  \<^verbatim>\<open>{ value: enteredTitle, required: true, minLength: 5, maxLength: 15 }\<close>.
\<close>

definition titleValidatable :: "string \<Rightarrow> Validatable" where
  "titleValidatable enteredTitle =
    \<lparr>val = Str enteredTitle, required = Some True,
     minLength = Some (Fin 5), maxLength = Some (Fin 15),
     min_val = None, max_val = None\<rparr>"

section \<open>The store\<close>

text \<open>
  \<^verbatim>\<open>class Project\<close>: five public fields set by the constructor. The field
  \<open>id\<close> is named \<open>project_id\<close> here (\<open>id\<close> is the identity function of HOL).
\<close>

datatype ProjectStatus = Active | Finished

record Project =
  project_id :: string
  title :: string
  description :: string
  people :: number
  status :: ProjectStatus

text \<open>
  \<^verbatim>\<open>type Listener<T> = (items: T[]) => void\<close>. A listener returns nothing and
  acts by its effect, so it is a function of the snapshot it receives and of the
  state \<open>'w\<close> it acts on: everything outside the store (for the list views, their
  fields and the document). A listener that calls back into the store is outside
  this type, and so is one that writes to the \<open>Project\<close> objects it receives: those
  are the subject of the heap model further down.
\<close>

type_synonym 'w Listener = "Project list \<Rightarrow> 'w \<Rightarrow> 'w"

text \<open>
  \<^verbatim>\<open>class ProjectState extends State<Project>\<close>: the inherited \<open>listeners\<close> and the
  private \<open>projects\<close>, both empty in the one instance \<open>getInstance\<close> creates.
\<close>

record 'w ProjectState =
  listeners :: "'w Listener list"
  projects :: "Project list"

definition getInstance :: "'w ProjectState" where
  "getInstance = \<lparr>listeners = [], projects = []\<rparr>"

definition addListener :: "'w Listener \<Rightarrow> 'w ProjectState \<Rightarrow> 'w ProjectState" where
  "addListener listenerFN s = s\<lparr>listeners := listeners s @ [listenerFN]\<rparr>"

text \<open>
  \<^verbatim>\<open>new Project(Math.random().toString(), title, description, numOfPeople,
  ProjectStatus.Active)\<close>. The string \<open>Math.random().toString()\<close> evaluates to is
  supplied by the environment: the argument \<open>rnd\<close>.
\<close>

definition newProject :: "string \<Rightarrow> string \<Rightarrow> string \<Rightarrow> number \<Rightarrow> Project" where
  "newProject rnd t d numOfPeople =
    \<lparr>project_id = rnd, title = t, description = d, people = numOfPeople, status = Active\<rparr>"

text \<open>
  \<^verbatim>\<open>for (const listenerFN of this.listeners) { listenerFN(this.projects.slice()) }\<close>:
  the listeners in array order, each on a copy of the current sequence.
\<close>

fun callListeners :: "'w Listener list \<Rightarrow> Project list \<Rightarrow> 'w \<Rightarrow> 'w" where
  "callListeners [] items w = w"
| "callListeners (listenerFN # rest) items w = callListeners rest items (listenerFN items w)"

definition addProject ::
  "string \<Rightarrow> string \<Rightarrow> string \<Rightarrow> number \<Rightarrow> 'w ProjectState \<times> 'w \<Rightarrow> 'w ProjectState \<times> 'w" where
  "addProject rnd t d numOfPeople sw =
    (let s = fst sw; w = snd sw;
         s = s\<lparr>projects := projects s @ [newProject rnd t d numOfPeople]\<rparr>
     in (s, callListeners (listeners s) (projects s) w))"

text \<open>A sequence of calls of \<open>addProject\<close>, each with its draw and its three arguments.\<close>

fun addProjects ::
  "(string \<times> string \<times> string \<times> number) list \<Rightarrow> 'w ProjectState \<times> 'w \<Rightarrow> 'w ProjectState \<times> 'w" where
  "addProjects [] sw = sw"
| "addProjects ((rnd, t, d, numOfPeople) # calls) sw =
     addProjects calls (addProject rnd t d numOfPeople sw)"

section \<open>The page: list views and the input form\<close>

text \<open>
  What the listeners and the form act on. \<open>assignedProjects t\<close> is the field of the
  \<open>ProjectList\<close> of type \<open>t\<close>; \<open>listEl t\<close> is the element
  \<^verbatim>\<open>document.getElementById(`${type}-project-list`)\<close>, held as the \<open>textContent\<close> of
  its \<open>li\<close> children in document order; the three inputs are the \<open>.value\<close> of the
  form's input elements; \<open>alerts\<close> are the messages \<open>alert\<close> has shown.
\<close>

datatype ListType = active | finished

record Page =
  assignedProjects :: "ListType \<Rightarrow> Project list"
  listEl :: "ListType \<Rightarrow> string list"
  titleInputElement :: string
  descriptionInputElement :: string
  peopleInputElement :: string
  alerts :: "string list"

text \<open>
  The loop of \<open>renderProjects\<close>: one \<open>li\<close> per assigned project, its text the
  project's title, appended to the children of the list element.
\<close>

fun appendChildren :: "Project list \<Rightarrow> string list \<Rightarrow> string list" where
  "appendChildren [] children = children"
| "appendChildren (prjItem # rest) children = appendChildren rest (children @ [title prjItem])"

text \<open>\<open>renderProjects\<close> of \<^verbatim>\<open>part_000\<close>: \<^verbatim>\<open>listEl.innerHTML = ''\<close>, then the loop.\<close>

definition renderProjects :: "ListType \<Rightarrow> Page \<Rightarrow> Page" where
  "renderProjects t pg =
    (let cleared = pg\<lparr>listEl := (listEl pg)(t := [])\<rparr>
     in cleared\<lparr>listEl := (listEl cleared)
          (t := appendChildren (assignedProjects cleared t) (listEl cleared t))\<rparr>)"

text \<open>The listener that \<open>configure\<close> of \<^verbatim>\<open>part_000\<close> registers.\<close>

definition configure :: "ListType \<Rightarrow> Page Listener" where
  "configure t prjs pg =
    (let relevantProjects =
           filter (\<lambda>x. if t = active then status x = Active else status x = Finished) prjs
     in renderProjects t (pg\<lparr>assignedProjects := (assignedProjects pg)(t := relevantProjects)\<rparr>))"

text \<open>\<open>renderProjects\<close> of \<^verbatim>\<open>part_001\<close>: the loop only, on the children already there.\<close>

definition renderProjects_part001 :: "ListType \<Rightarrow> Page \<Rightarrow> Page" where
  "renderProjects_part001 t pg =
    pg\<lparr>listEl := (listEl pg)(t := appendChildren (assignedProjects pg t) (listEl pg t))\<rparr>"

text \<open>
  The listener that the constructor of \<^verbatim>\<open>part_001\<close> registers:
  \<^verbatim>\<open>this.assignedProjects = projects; this.renderProjects();\<close>
\<close>

definition constructor_listener_part001 :: "ListType \<Rightarrow> Page Listener" where
  "constructor_listener_part001 t prjs pg =
    renderProjects_part001 t (pg\<lparr>assignedProjects := (assignedProjects pg)(t := prjs)\<rparr>)"

subsection \<open>The input form\<close>

text \<open>
  \<^verbatim>\<open>+enteredPeople\<close>: the string is trimmed of white space; the empty string is 0;
  an optional sign and one to fifteen decimal digits are that integer (exactly a
  double; the double \<open>-0\<close> is not told apart from 0). Every other string (a fraction,
  an exponent, a longer digit string, a hexadecimal literal, \<open>Infinity\<close>, or text
  that is no literal and gives NaN) is left to \<open>otherLiteral\<close>, a parameter of the
  model.
\<close>

definition isDecimalDigit :: "char \<Rightarrow> bool" where
  "isDecimalDigit c = (48 \<le> (of_char c :: nat) \<and> (of_char c :: nat) \<le> 57)"

definition decimalDigits :: "string \<Rightarrow> bool" where
  "decimalDigits ds = (ds \<noteq> [] \<and> length ds \<le> 15 \<and> list_all isDecimalDigit ds)"

definition digitsValue :: "string \<Rightarrow> nat" where
  "digitsValue ds = foldl (\<lambda>acc c. 10 * acc + (of_char c - 48)) 0 ds"

definition toNumber :: "(string \<Rightarrow> number) \<Rightarrow> string \<Rightarrow> number" where
  "toNumber otherLiteral s =
    (let t = trim s in
     if t = [] then Fin 0
     else if decimalDigits t then Fin (real (digitsValue t))
     else if hd t = CHR ''+'' \<and> decimalDigits (tl t) then Fin (real (digitsValue (tl t)))
     else if hd t = CHR ''-'' \<and> decimalDigits (tl t) then Fin (- real (digitsValue (tl t)))
     else otherLiteral t)"

text \<open>
  \<open>gatherUserInput\<close> returns the tuple, or nothing after an \<open>alert\<close>. Only the title
  is validated (the source's comment: \<^verbatim>\<open>//... add for all types\<close>).
\<close>

definition gatherUserInput ::
  "(string \<Rightarrow> number) \<Rightarrow> Page \<Rightarrow> (string \<times> string \<times> number) option \<times> Page" where
  "gatherUserInput otherLiteral pg =
    (let enteredTitle = titleInputElement pg;
         enteredDescription = descriptionInputElement pg;
         enteredPeople = peopleInputElement pg
     in if \<not> validate (titleValidatable enteredTitle)
        then (None, pg\<lparr>alerts := alerts pg @ [''Invalid user input!'']\<rparr>)
        else (Some (enteredTitle, enteredDescription, toNumber otherLiteral enteredPeople), pg))"

definition clearInputs :: "Page \<Rightarrow> Page" where
  "clearInputs pg =
    pg\<lparr>titleInputElement := [], descriptionInputElement := [], peopleInputElement := []\<rparr>"

text \<open>The application: the one store and the page.\<close>

record App =
  store :: "Page ProjectState"
  page :: Page

text \<open>
  \<open>submitHandler\<close>: \<^verbatim>\<open>Array.isArray(userInput)\<close> holds exactly when
  \<open>gatherUserInput\<close> returned the tuple. \<open>rnd\<close> is the draw \<open>addProject\<close> uses if it
  is called.
\<close>

definition submitHandler :: "(string \<Rightarrow> number) \<Rightarrow> string \<Rightarrow> App \<Rightarrow> App" where
  "submitHandler otherLiteral rnd app =
    (case gatherUserInput otherLiteral (page app) of
       (None, pg) \<Rightarrow> app\<lparr>page := pg\<rparr>
     | (Some (t, desc, ppl), pg) \<Rightarrow>
         (let sw = addProject rnd t desc ppl (store app, pg)
          in \<lparr>store = fst sw, page = clearInputs (snd sw)\<rparr>))"

text \<open>
  Start-up: \<^verbatim>\<open>new ProjectInput(); new ProjectList('active');
  new ProjectList('finished')\<close>. The constructor of \<open>ProjectList\<close> sets
  \<open>assignedProjects\<close> to the empty array and registers its listener. The HTML
  templates are not part of the sources: the inputs are taken to start empty and the
  template's list to have no items.
\<close>

definition emptyPage :: Page where
  "emptyPage =
    \<lparr>assignedProjects = (\<lambda>t. []), listEl = (\<lambda>t. []),
     titleInputElement = [], descriptionInputElement = [], peopleInputElement = [],
     alerts = []\<rparr>"

definition ProjectList_new :: "(ListType \<Rightarrow> Page Listener) \<Rightarrow> ListType \<Rightarrow> App \<Rightarrow> App" where
  "ProjectList_new listener t app =
    \<lparr>store = addListener (listener t) (store app),
     page = (page app)\<lparr>assignedProjects := (assignedProjects (page app))(t := [])\<rparr>\<rparr>"

definition initialApp :: App where
  "initialApp =
    ProjectList_new configure finished
      (ProjectList_new configure active \<lparr>store = getInstance, page = emptyPage\<rparr>)"

definition initialApp_part001 :: App where
  "initialApp_part001 =
    ProjectList_new constructor_listener_part001 finished
      (ProjectList_new constructor_listener_part001 active
         \<lparr>store = getInstance, page = emptyPage\<rparr>)"

text \<open>
  What the user can do: type into an input, or submit the form (with the draw the
  store would use).
\<close>

datatype event = TypeTitle string | TypeDescription string | TypePeople string | Submit string

fun step :: "(string \<Rightarrow> number) \<Rightarrow> App \<Rightarrow> event \<Rightarrow> App" where
  "step otherLiteral app (TypeTitle s) = app\<lparr>page := (page app)\<lparr>titleInputElement := s\<rparr>\<rparr>"
| "step otherLiteral app (TypeDescription s) =
     app\<lparr>page := (page app)\<lparr>descriptionInputElement := s\<rparr>\<rparr>"
| "step otherLiteral app (TypePeople s) = app\<lparr>page := (page app)\<lparr>peopleInputElement := s\<rparr>\<rparr>"
| "step otherLiteral app (Submit rnd) = submitHandler otherLiteral rnd app"

definition run :: "(string \<Rightarrow> number) \<Rightarrow> App \<Rightarrow> event list \<Rightarrow> App" where
  "run otherLiteral app evs = foldl (step otherLiteral) app evs"

section \<open>Notions used in the statements\<close>

text \<open>The records a sequence of calls creates, in call order.\<close>

definition created :: "(string \<times> string \<times> string \<times> number) list \<Rightarrow> Project list" where
  "created calls = map (\<lambda>(rnd, t, d, numOfPeople). newProject rnd t d numOfPeople) calls"

text \<open>
  The invariant behind the status claim: every record of a list is active; both
  views hold active records only; every registered listener is one a \<open>ProjectList\<close>
  registered (of either copy of the code).
\<close>

definition allActive :: "Project list \<Rightarrow> bool" where
  "allActive prjs = list_all (\<lambda>p. status p = Active) prjs"

definition viewsActive :: "Page \<Rightarrow> bool" where
  "viewsActive pg =
    (allActive (assignedProjects pg active) \<and> allActive (assignedProjects pg finished))"

definition listListener :: "Page Listener \<Rightarrow> bool" where
  "listListener l =
    (l \<in> {configure active, configure finished,
          constructor_listener_part001 active, constructor_listener_part001 finished})"

definition appActive :: "App \<Rightarrow> bool" where
  "appActive app =
    (list_all listListener (listeners (store app)) \<and>
     allActive (projects (store app)) \<and> viewsActive (page app))"

section \<open>The store on a heap: what a snapshot shares with the store\<close>

text \<open>
  \<open>this.projects\<close> is an array of references to \<open>Project\<close> objects, and
  \<open>this.projects.slice()\<close> is a new array holding the same references. To say what a
  subscriber can reach through the array it receives, objects and arrays live in a
  heap: \<open>objects\<close> maps a reference to a \<open>Project\<close>, \<open>arrays\<close> maps a reference to
  the element references of a \<open>Project[]\<close> (arrays without holes), and \<open>nextRef\<close> is
  the first reference not yet handed out.
\<close>

type_synonym ref = nat

record heap =
  objects :: "ref \<rightharpoonup> Project"
  arrays :: "ref \<rightharpoonup> ref list"
  nextRef :: ref

text \<open>
  What a subscriber may do to the snapshot \<open>items\<close> it received. \<open>ArrayWrite f\<close> is a
  write to the array itself, replacing its elements \<open>xs\<close> by \<open>f xs\<close>: \<open>push\<close>, \<open>pop\<close>,
  \<open>splice\<close>, \<open>sort\<close>, \<open>reverse\<close>, an assignment to an element or a shorter \<open>length\<close>.
  \<open>RecordWrite i g\<close> is a write to the fields of the object \<open>items[i]\<close>, done when
  that element exists, replacing the object's value \<open>p\<close> by \<open>g p\<close>.
\<close>

datatype mutation =
    ArrayWrite "ref list \<Rightarrow> ref list"
  | RecordWrite nat "Project \<Rightarrow> Project"

fun isArrayWrite :: "mutation \<Rightarrow> bool" where
  "isArrayWrite (ArrayWrite f) = True"
| "isArrayWrite (RecordWrite i g) = False"

text \<open>
  A subscriber on the heap: from the heap it can read and the reference of its
  snapshot, the writes it performs, in order.
\<close>

type_synonym hListener = "heap \<Rightarrow> ref \<Rightarrow> mutation list"

record ProjectState_h =
  listeners_h :: "hListener list"
  projects_h :: ref

definition elements :: "ref \<Rightarrow> heap \<Rightarrow> ref list" where
  "elements a h = (case arrays h a of None \<Rightarrow> [] | Some xs \<Rightarrow> xs)"

text \<open>The records an array holds, read through its references.\<close>

definition readArray :: "ref \<Rightarrow> heap \<Rightarrow> Project option list" where
  "readArray a h = map (objects h) (elements a h)"

fun applyMutation :: "ref \<Rightarrow> heap \<Rightarrow> mutation \<Rightarrow> heap" where
  "applyMutation a h (ArrayWrite f) = h\<lparr>arrays := (arrays h)(a \<mapsto> f (elements a h))\<rparr>"
| "applyMutation a h (RecordWrite i g) =
     (if i < length (elements a h)
      then (case objects h (elements a h ! i) of
              None \<Rightarrow> h
            | Some p \<Rightarrow> h\<lparr>objects := (objects h)(elements a h ! i \<mapsto> g p)\<rparr>)
      else h)"

text \<open>\<open>slice()\<close>: a new array with the elements of the array \<open>a\<close>.\<close>

definition slice :: "ref \<Rightarrow> heap \<Rightarrow> ref \<times> heap" where
  "slice a h =
    (nextRef h,
     h\<lparr>arrays := (arrays h)(nextRef h \<mapsto> elements a h), nextRef := Suc (nextRef h)\<rparr>)"

text \<open>The loop of \<open>addProject\<close>: each listener receives a slice of its own.\<close>

fun callListeners_h :: "hListener list \<Rightarrow> ref \<Rightarrow> heap \<Rightarrow> heap" where
  "callListeners_h [] prjs h = h"
| "callListeners_h (listenerFN # rest) prjs h =
     (let snapshot = fst (slice prjs h); h = snd (slice prjs h);
          h = foldl (applyMutation snapshot) h (listenerFN h snapshot)
      in callListeners_h rest prjs h)"

text \<open>
  \<open>addProject\<close> on the heap: \<open>new Project(...)\<close> allocates the object,
  \<open>this.projects.push(newProject)\<close> writes the store's own array in place, then the
  loop runs.
\<close>

definition addProject_h ::
  "string \<Rightarrow> string \<Rightarrow> string \<Rightarrow> number \<Rightarrow> ProjectState_h \<Rightarrow> heap \<Rightarrow> heap" where
  "addProject_h rnd t d numOfPeople s h =
    (let newRef = nextRef h;
         h = h\<lparr>objects := (objects h)(newRef \<mapsto> newProject rnd t d numOfPeople),
               nextRef := Suc newRef\<rparr>;
         h = h\<lparr>arrays := (arrays h)(projects_h s \<mapsto> elements (projects_h s) h @ [newRef])\<rparr>
     in callListeners_h (listeners_h s) (projects_h s) h)"

fun addProjects_h ::
  "(string \<times> string \<times> string \<times> number) list \<Rightarrow> ProjectState_h \<Rightarrow> heap \<Rightarrow> heap" where
  "addProjects_h [] s h = h"
| "addProjects_h ((rnd, t, d, numOfPeople) # calls) s h =
     addProjects_h calls s (addProject_h rnd t d numOfPeople s h)"

text \<open>The instance with its empty \<open>projects\<close> array allocated, and given listeners.\<close>

definition getInstance_h :: "hListener list \<Rightarrow> ProjectState_h \<times> heap" where
  "getInstance_h ls =
    (\<lparr>listeners_h = ls, projects_h = 0\<rparr>,
     \<lparr>objects = Map.empty, arrays = [0 \<mapsto> []], nextRef = 1\<rparr>)"

text \<open>
  A heap in which the store's array was allocated and no object lives at a reference
  not yet handed out; a subscriber that writes to its array only.
\<close>

definition allocated :: "ProjectState_h \<Rightarrow> heap \<Rightarrow> bool" where
  "allocated s h =
    (projects_h s < nextRef h \<and> (\<forall>r. nextRef h \<le> r \<longrightarrow> objects h r = None))"

definition arrayOnly :: "hListener \<Rightarrow> bool" where
  "arrayOnly l = (\<forall>h a. list_all isArrayWrite (l h a))"

text \<open>
  Two subscribers: one sets the title of the first record of its snapshot, one
  doubles and then empties its snapshot array.
\<close>

definition retitle :: hListener where
  "retitle h a = [RecordWrite 0 (\<lambda>p. p\<lparr>title := ''changed''\<rparr>)]"

definition pushAgain :: hListener where
  "pushAgain h a = [ArrayWrite (\<lambda>xs. xs @ xs), ArrayWrite (\<lambda>xs. [])]"

section \<open>Validation\<close>

text \<open>
  \<open>validate\<close> as a conjunction: the \<open>required\<close> test when \<open>required\<close> is true, the
  length tests that are configured when the value is a string, the numeric tests that
  are configured when the value is a number, and nothing else.
\<close>

lemma validate_iff:
  "validate v \<longleftrightarrow>
     (required v = Some True \<longrightarrow> toString_trim_nonempty (val v)) \<and>
     (\<forall>s. val v = Str s \<longrightarrow>
        (\<forall>m. minLength v = Some m \<longrightarrow> number_gt (Fin (real (length s))) m) \<and>
        (\<forall>m. maxLength v = Some m \<longrightarrow> number_lt (Fin (real (length s))) m)) \<and>
     (\<forall>x. val v = Num x \<longrightarrow>
        (\<forall>m. min_val v = Some m \<longrightarrow> number_gt x m) \<and>
        (\<forall>m. max_val v = Some m \<longrightarrow> number_lt x m))"
  by (cases "val v") (auto simp: validate_def split: option.splits)

text \<open>The title configuration accepts exactly the non-blank titles of 6 to 14 code units.\<close>

lemma validate_title_iff:
  "validate (titleValidatable s) \<longleftrightarrow> trim s \<noteq> [] \<and> 5 < length s \<and> length s < 15"
  by (auto simp: validate_def titleValidatable_def number_lt_def)

text \<open>
  Claim C8. With the configuration \<open>{required: true, minLength: 5, maxLength: 15}\<close>,
  \<open>validate\<close> is false for \<open>"Test"\<close>, true for \<open>"Hello World"\<close> and false for the
  empty string. In general \<open>validate\<close> applies only the checks present in the
  configuration: the length checks only to a string, the numeric bounds only to a
  number. \<open>validate\<close> is a function of its argument alone: it reads and writes no
  state.
\<close>

theorem validate_checks:
  "validate (titleValidatable ''Test'') = False \<and>
   validate (titleValidatable ''Hello World'') = True \<and>
   validate (titleValidatable []) = False \<and>
   (validate v \<longleftrightarrow>
     (required v = Some True \<longrightarrow> toString_trim_nonempty (val v)) \<and>
     (\<forall>s. val v = Str s \<longrightarrow>
        (\<forall>m. minLength v = Some m \<longrightarrow> number_gt (Fin (real (length s))) m) \<and>
        (\<forall>m. maxLength v = Some m \<longrightarrow> number_lt (Fin (real (length s))) m)) \<and>
     (\<forall>x. val v = Num x \<longrightarrow>
        (\<forall>m. min_val v = Some m \<longrightarrow> number_gt x m) \<and>
        (\<forall>m. max_val v = Some m \<longrightarrow> number_lt x m)))"
proof -
  have "\<not> validate (titleValidatable ''Test'')"
    by (simp add: validate_title_iff)
  moreover have "validate (titleValidatable ''Hello World'')"
    by (simp add: validate_title_iff trim_def isWhiteSpace_def)
  moreover have "\<not> validate (titleValidatable [])"
    by (simp add: validate_title_iff)
  ultimately show ?thesis
    using validate_iff [of v] by simp
qed

text \<open>
  The general part at two inputs: a number passes a configured \<open>minLength\<close> it would
  fail as a string, and is held to \<open>min\<close> and \<open>max\<close>; a string is held to
  \<open>minLength\<close> and passes numeric bounds that are configured.
\<close>

theorem validate_checks_witness:
  "validate \<lparr>val = Num (Fin 3), required = Some True, minLength = Some (Fin 5),
     maxLength = None, min_val = Some (Fin 1), max_val = Some (Fin 5)\<rparr> \<and>
   \<not> validate \<lparr>val = Str ''abc'', required = Some False, minLength = Some (Fin 5),
     maxLength = None, min_val = Some (Fin 1), max_val = Some (Fin 2)\<rparr>"
  using validate_checks [of "\<lparr>val = Num (Fin 3), required = Some True,
      minLength = Some (Fin 5), maxLength = None, min_val = Some (Fin 1),
      max_val = Some (Fin 5)\<rparr>"]
    validate_checks [of "\<lparr>val = Str ''abc'', required = Some False,
      minLength = Some (Fin 5), maxLength = None, min_val = Some (Fin 1),
      max_val = Some (Fin 2)\<rparr>"]
  by (simp add: number_lt_def)

text \<open>
  Claim C10. The length checks are strict: a string whose length equals the
  configured \<open>minLength\<close>, or equals the configured \<open>maxLength\<close>, is rejected. So a
  title of exactly 5 or exactly 15 characters fails the title configuration.
\<close>

theorem validate_length_bounds_strict:
  "val v = Str s \<Longrightarrow>
   minLength v = Some (Fin (real (length s))) \<or> maxLength v = Some (Fin (real (length s))) \<Longrightarrow>
   \<not> validate v"
  by (auto simp: validate_def number_lt_def split: option.splits)

theorem validate_length_bounds_strict_witness:
  "\<not> validate (titleValidatable ''Hello'') \<and> \<not> validate (titleValidatable ''fifteen chars!!'')"
  using validate_length_bounds_strict [of "titleValidatable ''Hello''" "''Hello''"]
    validate_length_bounds_strict
      [of "titleValidatable ''fifteen chars!!''" "''fifteen chars!!''"]
  by (simp add: titleValidatable_def)

section \<open>The store\<close>

lemma callListeners_fold:
  "callListeners ls items w = fold (\<lambda>listenerFN. listenerFN items) ls w"
  by (induction ls arbitrary: w) simp_all

lemma addProject_eq:
  "addProject rnd t d n (s, w) =
     (s\<lparr>projects := projects s @ [newProject rnd t d n]\<rparr>,
      fold (\<lambda>listenerFN. listenerFN (projects s @ [newProject rnd t d n])) (listeners s) w)"
  by (simp add: addProject_def callListeners_fold)

lemma addProjects_append:
  "addProjects (xs @ ys) sw = addProjects ys (addProjects xs sw)"
  by (induction xs sw rule: addProjects.induct) simp_all

lemma fst_addProjects:
  "fst (addProjects calls (s, w)) = s\<lparr>projects := projects s @ created calls\<rparr>"
proof (induction calls arbitrary: s w)
  case Nil
  show ?case by (simp add: created_def)
next
  case (Cons c calls)
  obtain rnd t d n where c: "c = (rnd, t, d, n)" by (cases c) auto
  show ?case
    by (simp add: c addProject_eq Cons.IH created_def)
qed

lemma addListener_registers:
  "foldl (\<lambda>s listenerFN. addListener listenerFN s) getInstance ls =
     \<lparr>listeners = ls, projects = []\<rparr>"
proof -
  have "foldl (\<lambda>s listenerFN. addListener listenerFN s) s0 ls =
          s0\<lparr>listeners := listeners s0 @ ls\<rparr>" for s0 :: "'a ProjectState"
    by (induction ls arbitrary: s0) (simp_all add: addListener_def)
  then show ?thesis by (simp add: getInstance_def)
qed

text \<open>
  Claim C1. Take the store with no records in which the listeners \<open>ls\<close> were
  registered by \<open>addListener\<close>, in that order, before the first call. After any
  sequence of calls of \<open>addProject\<close> followed by one more, the store holds exactly
  the records created so far, in call order, and that last call has invoked every
  listener, in registration order, on exactly that list.
\<close>

theorem addProject_notifies_with_all_records:
  "addProjects (calls @ [(rnd, t, d, n)])
     (foldl (\<lambda>s listenerFN. addListener listenerFN s) getInstance ls, w) =
     (\<lparr>listeners = ls, projects = created (calls @ [(rnd, t, d, n)])\<rparr>,
      fold (\<lambda>listenerFN. listenerFN (created (calls @ [(rnd, t, d, n)]))) ls
        (snd (addProjects calls
               (foldl (\<lambda>s listenerFN. addListener listenerFN s) getInstance ls, w))))"
proof -
  let ?s0 = "\<lparr>listeners = ls, projects = []\<rparr>"
  obtain s' w' where sw: "addProjects calls (?s0, w) = (s', w')"
    by (cases "addProjects calls (?s0, w)") auto
  have "s' = \<lparr>listeners = ls, projects = created calls\<rparr>"
    using fst_addProjects [of calls ?s0 w] sw by simp
  then show ?thesis
    by (simp add: addListener_registers addProjects_append sw addProject_eq created_def)
qed

lemma project_id_created: "map project_id (created calls) = map fst calls"
  by (induction calls) (auto simp: created_def newProject_def)

text \<open>
  Claim C9, as stated, fails: two calls whose draws of \<open>Math.random()\<close> print the
  same give two records with the same id. The store compares no ids.
\<close>

theorem project_ids_can_collide:
  "\<not> distinct (map project_id (projects (fst (addProjects
      [(''0.5'', ''Build API'', ''desc'', Fin 3), (''0.5'', ''Second one'', ''desc'', Fin 2)]
      (getInstance, ())))))"
  by (simp add: addProject_def getInstance_def newProject_def)

text \<open>
  Claim C9, amended. The id of each record is the string of the draw of its call:
  the ids in the store are the ids already there followed by the draws, in call
  order. From an empty store, the ids are pairwise distinct exactly when the draws
  are.
\<close>

theorem project_ids_are_the_draws:
  "map project_id (projects (fst (addProjects calls (s, w)))) =
     map project_id (projects s) @ map fst calls \<and>
   distinct (map project_id (projects (fst (addProjects calls (getInstance, w))))) =
     distinct (map fst calls)"
  by (simp add: fst_addProjects project_id_created getInstance_def)

section \<open>The input form\<close>

lemmas app_defs = Let_def run_def initialApp_def initialApp_part001_def ProjectList_new_def
  addListener_def getInstance_def emptyPage_def submitHandler_def gatherUserInput_def
  validate_title_iff addProject_def newProject_def configure_def renderProjects_def
  clearInputs_def constructor_listener_part001_def renderProjects_part001_def
  toNumber_def trim_def isWhiteSpace_def decimalDigits_def isDecimalDigit_def digitsValue_def

text \<open>
  Claim C6. When the title in the form fails the title configuration, a submission
  shows the notice and changes nothing else: the store (its records and listeners)
  is the same, so no listener ran and both views and rendered lists are the same,
  and the three inputs keep their values. That \<open>alert\<close> blocks is not part of the
  model.
\<close>

theorem submitHandler_invalid_title:
  "\<not> validate (titleValidatable (titleInputElement (page app))) \<Longrightarrow>
   submitHandler otherLiteral rnd app =
     app\<lparr>page := (page app)\<lparr>alerts := alerts (page app) @ [''Invalid user input!'']\<rparr>\<rparr>"
  by (simp add: submitHandler_def gatherUserInput_def)

theorem submitHandler_invalid_title_witness:
  "projects (store (submitHandler (\<lambda>s. NaN) ''0.42''
      (run (\<lambda>s. NaN) initialApp [TypeTitle ''Hi!'']))) = [] \<and>
   alerts (page (submitHandler (\<lambda>s. NaN) ''0.42''
      (run (\<lambda>s. NaN) initialApp [TypeTitle ''Hi!'']))) = [''Invalid user input!''] \<and>
   titleInputElement (page (submitHandler (\<lambda>s. NaN) ''0.42''
      (run (\<lambda>s. NaN) initialApp [TypeTitle ''Hi!'']))) = ''Hi!''"
  using submitHandler_invalid_title
    [of "run (\<lambda>s. NaN) initialApp [TypeTitle ''Hi!'']" "\<lambda>s. NaN" "''0.42''"]
  by (simp add: run_def initialApp_def ProjectList_new_def addListener_def getInstance_def
      emptyPage_def validate_title_iff)

text \<open>
  Claim C4, on the code: only the title is validated, so a submission with a valid
  title and a people field of \<open>0\<close> or \<open>-2\<close> reaches the store, which then holds a
  record whose \<open>people\<close> is 0 or -2.
\<close>

theorem submit_stores_nonpositive_people:
  "projects (store (run (\<lambda>s. NaN) initialApp
      [TypeTitle ''Build API'', TypeDescription ''desc'', TypePeople ''0'', Submit ''0.42''])) =
     [\<lparr>project_id = ''0.42'', title = ''Build API'', description = ''desc'',
       people = Fin 0, status = Active\<rparr>] \<and>
   projects (store (run (\<lambda>s. NaN) initialApp
      [TypeTitle ''Build API'', TypeDescription ''desc'', TypePeople ''-2'', Submit ''0.42''])) =
     [\<lparr>project_id = ''0.42'', title = ''Build API'', description = ''desc'',
       people = Fin (- 2), status = Active\<rparr>]"
  by (simp add: app_defs)

section \<open>Status of the records\<close>

lemma allActive_append: "allActive (xs @ ys) = (allActive xs \<and> allActive ys)"
  by (simp add: allActive_def)

lemma allActive_filter: "allActive xs \<Longrightarrow> allActive (filter P xs)"
  by (induction xs) (simp_all add: allActive_def)

lemma allActive_newProject: "allActive [newProject rnd t d n]"
  by (simp add: allActive_def newProject_def)

lemma listListener_viewsActive:
  "listListener l \<Longrightarrow> allActive prjs \<Longrightarrow> viewsActive pg \<Longrightarrow> viewsActive (l prjs pg)"
  by (auto simp: listListener_def viewsActive_def configure_def renderProjects_def
      constructor_listener_part001_def renderProjects_part001_def Let_def allActive_filter)

lemma callListeners_viewsActive:
  "list_all listListener ls \<Longrightarrow> allActive prjs \<Longrightarrow> viewsActive pg \<Longrightarrow>
   viewsActive (callListeners ls prjs pg)"
  by (induction ls arbitrary: pg) (simp_all add: listListener_viewsActive)

lemma viewsActive_frame:
  "viewsActive (pg\<lparr>titleInputElement := a\<rparr>) = viewsActive pg"
  "viewsActive (pg\<lparr>descriptionInputElement := a\<rparr>) = viewsActive pg"
  "viewsActive (pg\<lparr>peopleInputElement := a\<rparr>) = viewsActive pg"
  "viewsActive (pg\<lparr>alerts := b\<rparr>) = viewsActive pg"
  by (simp_all add: viewsActive_def)

lemma submitHandler_appActive:
  assumes "appActive app"
  shows "appActive (submitHandler otherLiteral rnd app)"
proof (cases "validate (titleValidatable (titleInputElement (page app)))")
  case False
  then show ?thesis
    using assms by (simp add: submitHandler_def gatherUserInput_def appActive_def viewsActive_frame)
next
  case True
  have "viewsActive (callListeners (listeners (store app))
          (projects (store app) @ [newProject rnd t d n]) (page app))" for t d n
    using assms
    by (intro callListeners_viewsActive)
       (simp_all add: appActive_def allActive_append allActive_newProject)
  then show ?thesis
    using assms True
    by (simp add: submitHandler_def gatherUserInput_def appActive_def addProject_def
        clearInputs_def viewsActive_frame allActive_append allActive_newProject Let_def)
qed

lemma step_appActive: "appActive app \<Longrightarrow> appActive (step otherLiteral app ev)"
  by (cases ev) (simp_all add: submitHandler_appActive, simp_all add: appActive_def viewsActive_frame)

lemma run_appActive: "appActive app \<Longrightarrow> appActive (run otherLiteral app evs)"
  unfolding run_def by (induction evs arbitrary: app) (simp_all add: step_appActive)

lemma initialApp_appActive: "appActive initialApp" "appActive initialApp_part001"
  by (simp_all add: appActive_def initialApp_def initialApp_part001_def ProjectList_new_def
      addListener_def getInstance_def emptyPage_def listListener_def viewsActive_def allActive_def)

text \<open>
  Claim C7. A record is created with status \<open>Active\<close>, and in every state the
  application reaches from start-up by typing and submitting (in either copy of the
  code) every record of the store and every record a view holds is \<open>Active\<close>.
\<close>

theorem status_always_Active:
  "status (newProject rnd t d n) = Active \<and>
   (\<forall>p \<in> set (projects (store (run otherLiteral initialApp evs))). status p = Active) \<and>
   (\<forall>ty. \<forall>p \<in> set (assignedProjects (page (run otherLiteral initialApp evs)) ty).
      status p = Active) \<and>
   (\<forall>p \<in> set (projects (store (run otherLiteral initialApp_part001 evs))). status p = Active) \<and>
   (\<forall>ty. \<forall>p \<in> set (assignedProjects (page (run otherLiteral initialApp_part001 evs)) ty).
      status p = Active)"
proof -
  have a: "appActive (run otherLiteral initialApp evs)"
    and b: "appActive (run otherLiteral initialApp_part001 evs)"
    by (simp_all add: run_appActive initialApp_appActive)
  have v: "viewsActive pg \<Longrightarrow> \<forall>p \<in> set (assignedProjects pg ty). status p = Active" for pg ty
    by (cases ty) (simp_all add: viewsActive_def allActive_def list_all_iff)
  have sa: "\<forall>p \<in> set (projects (store app)). status p = Active" if "appActive app" for app
    using that by (simp add: appActive_def allActive_def list_all_iff)
  have va: "\<forall>ty. \<forall>p \<in> set (assignedProjects (page app) ty). status p = Active"
    if "appActive app" for app
    using that v [of "page app"] unfolding appActive_def by blast
  have n: "status (newProject rnd t d n) = Active"
    by (simp add: newProject_def)
  show ?thesis
    using n sa [OF a] va [OF a] sa [OF b] va [OF b] by blast
qed

theorem status_always_Active_witness:
  "projects (store (run (\<lambda>s. NaN) initialApp
      [TypeTitle ''Build API'', TypeDescription ''desc'', TypePeople ''3'', Submit ''0.42'']))
     \<noteq> [] \<and>
   status (hd (projects (store (run (\<lambda>s. NaN) initialApp
      [TypeTitle ''Build API'', TypeDescription ''desc'', TypePeople ''3'', Submit ''0.42''])))) =
     Active"
  using status_always_Active [of "''0.42''" "''Build API''" "''desc''" "Fin 3" "\<lambda>s. NaN"
      "[TypeTitle ''Build API'', TypeDescription ''desc'', TypePeople ''3'', Submit ''0.42'']"]
  by (simp add: app_defs)

section \<open>The list views\<close>

lemma appendChildren_eq: "appendChildren prjs children = children @ map title prjs"
  by (induction prjs arbitrary: children) simp_all

text \<open>
  The listener of \<^verbatim>\<open>part_000\<close>: after a notification the view of type \<open>t\<close> holds
  exactly the records of the snapshot whose status is that of its partition, and its
  list shows their titles, one item each, in snapshot order. The other view and list
  are untouched.
\<close>

lemma configure_retains_partition:
  "assignedProjects (configure t prjs pg) t =
     filter (\<lambda>x. status x = (if t = active then Active else Finished)) prjs \<and>
   listEl (configure t prjs pg) t =
     map title (filter (\<lambda>x. status x = (if t = active then Active else Finished)) prjs)"
  by (cases t) (simp_all add: configure_def renderProjects_def appendChildren_eq Let_def)

lemma configure_frame:
  "t' \<noteq> t \<Longrightarrow>
   assignedProjects (configure t prjs pg) t' = assignedProjects pg t' \<and>
   listEl (configure t prjs pg) t' = listEl pg t'"
  by (simp add: configure_def renderProjects_def Let_def)

text \<open>
  In \<^verbatim>\<open>part_000\<close>, after any number of notifications the list shows the retained
  records of the last snapshot and nothing of earlier renders.
\<close>

lemma configure_last_snapshot:
  "snaps \<noteq> [] \<Longrightarrow>
   listEl (fold (configure t) snaps pg) t =
     map title (filter (\<lambda>x. status x = (if t = active then Active else Finished)) (last snaps))"
proof (induction snaps arbitrary: pg)
  case Nil
  then show ?case by simp
next
  case (Cons a snaps)
  show ?case
  proof (cases "snaps = []")
    case True
    then show ?thesis by (simp add: configure_retains_partition)
  next
    case False
    then show ?thesis using Cons.IH [of "configure t a pg"] by simp
  qed
qed

text \<open>
  In \<^verbatim>\<open>part_000\<close>, one submission of \<open>"Build API"\<close>, \<open>"desc"\<close>, \<open>3\<close>: one record
  in the store, one item with that title in the active list, none in the finished
  list, and the inputs cleared.
\<close>

lemma submit_one_project:
  "projects (store (run (\<lambda>s. NaN) initialApp
      [TypeTitle ''Build API'', TypeDescription ''desc'', TypePeople ''3'', Submit ''0.42''])) =
     [newProject ''0.42'' ''Build API'' ''desc'' (Fin 3)] \<and>
   listEl (page (run (\<lambda>s. NaN) initialApp
      [TypeTitle ''Build API'', TypeDescription ''desc'', TypePeople ''3'', Submit ''0.42'']))
     active = [''Build API''] \<and>
   listEl (page (run (\<lambda>s. NaN) initialApp
      [TypeTitle ''Build API'', TypeDescription ''desc'', TypePeople ''3'', Submit ''0.42'']))
     finished = [] \<and>
   titleInputElement (page (run (\<lambda>s. NaN) initialApp
      [TypeTitle ''Build API'', TypeDescription ''desc'', TypePeople ''3'', Submit ''0.42''])) = []"
  by (simp add: app_defs)

text \<open>
  Claim C2, on the code of \<^verbatim>\<open>part_001\<close>: its listener assigns the whole snapshot
  (no filter by status), so after one submission of \<open>"Build API"\<close>, \<open>"desc"\<close>, \<open>3\<close>
  the finished view holds the active record and the finished list shows one item.
\<close>

theorem part001_finished_list_shows_active_project:
  "assignedProjects (page (run (\<lambda>s. NaN) initialApp_part001
      [TypeTitle ''Build API'', TypeDescription ''desc'', TypePeople ''3'', Submit ''0.42'']))
     finished = [newProject ''0.42'' ''Build API'' ''desc'' (Fin 3)] \<and>
   listEl (page (run (\<lambda>s. NaN) initialApp_part001
      [TypeTitle ''Build API'', TypeDescription ''desc'', TypePeople ''3'', Submit ''0.42'']))
     finished = [''Build API'']"
  by (simp add: app_defs)

text \<open>
  Claim C5, on the code of \<^verbatim>\<open>part_001\<close>: its \<open>renderProjects\<close> appends to the items
  already in the list (nothing is cleared), so after two submissions the active list
  shows three items: the first project twice, then the second.
\<close>

theorem part001_render_keeps_old_items:
  "listEl (page (run (\<lambda>s. NaN) initialApp_part001
      [TypeTitle ''Build API'', TypeDescription ''desc'', TypePeople ''3'', Submit ''0.42'',
       TypeTitle ''Second one'', TypeDescription ''more'', TypePeople ''2'', Submit ''0.77'']))
     active = [''Build API'', ''Build API'', ''Second one'']"
  by (simp add: app_defs)

section \<open>Snapshots and the store's own state\<close>

lemma applyMutations_array:
  "list_all isArrayWrite ms \<Longrightarrow> a \<noteq> p \<Longrightarrow>
   objects (foldl (applyMutation a) h ms) = objects h \<and>
   arrays (foldl (applyMutation a) h ms) p = arrays h p \<and>
   nextRef (foldl (applyMutation a) h ms) = nextRef h"
proof (induction ms arbitrary: h)
  case Nil
  show ?case by simp
next
  case (Cons m ms)
  then obtain f where m: "m = ArrayWrite f" by (cases m) auto
  show ?case using Cons by (simp add: m)
qed

lemma callListeners_h_array:
  "list_all arrayOnly ls \<Longrightarrow> p < nextRef h \<Longrightarrow>
   objects (callListeners_h ls p h) = objects h \<and>
   arrays (callListeners_h ls p h) p = arrays h p \<and>
   nextRef h \<le> nextRef (callListeners_h ls p h)"
proof (induction ls arbitrary: h)
  case Nil
  show ?case by simp
next
  case (Cons l ls)
  let ?a = "fst (slice p h)"
  let ?h1 = "snd (slice p h)"
  let ?h2 = "foldl (applyMutation ?a) ?h1 (l ?h1 ?a)"
  have ne: "?a \<noteq> p" using Cons.prems by (simp add: slice_def)
  have ms: "list_all isArrayWrite (l ?h1 ?a)" using Cons.prems by (simp add: arrayOnly_def)
  have h2: "objects ?h2 = objects h" "arrays ?h2 p = arrays h p" "nextRef ?h2 = Suc (nextRef h)"
    using applyMutations_array [OF ms ne, of ?h1] ne by (simp_all add: slice_def)
  have "p < nextRef ?h2" using Cons.prems h2 by simp
  from Cons.IH [OF _ this] Cons.prems h2 show ?case by (simp add: Let_def)
qed

lemma addProject_h_array:
  assumes "list_all arrayOnly (listeners_h s)" and "allocated s h"
  shows "objects (addProject_h rnd t d n s h) = (objects h)(nextRef h \<mapsto> newProject rnd t d n)"
    and "elements (projects_h s) (addProject_h rnd t d n s h) =
           elements (projects_h s) h @ [nextRef h]"
    and "allocated s (addProject_h rnd t d n s h)"
proof -
  let ?h1 = "h\<lparr>objects := (objects h)(nextRef h \<mapsto> newProject rnd t d n),
               nextRef := Suc (nextRef h)\<rparr>"
  let ?h2 = "?h1\<lparr>arrays := (arrays ?h1)
               (projects_h s \<mapsto> elements (projects_h s) ?h1 @ [nextRef h])\<rparr>"
  have eq: "addProject_h rnd t d n s h = callListeners_h (listeners_h s) (projects_h s) ?h2"
    by (simp add: addProject_h_def Let_def)
  have lt: "projects_h s < nextRef ?h2" using assms(2) by (simp add: allocated_def)
  note c = callListeners_h_array [OF assms(1) lt]
  show "objects (addProject_h rnd t d n s h) = (objects h)(nextRef h \<mapsto> newProject rnd t d n)"
    using c by (simp add: eq)
  show "elements (projects_h s) (addProject_h rnd t d n s h) =
          elements (projects_h s) h @ [nextRef h]"
    using c by (simp add: eq elements_def)
  show "allocated s (addProject_h rnd t d n s h)"
    using c assms(2) by (auto simp: eq allocated_def)
qed

lemma readArray_addProject_h:
  assumes "list_all arrayOnly (listeners_h s)" and "allocated s h"
    and "set (elements (projects_h s) h) \<subseteq> {..<nextRef h}"
  shows "readArray (projects_h s) (addProject_h rnd t d n s h) =
           readArray (projects_h s) h @ [Some (newProject rnd t d n)]"
    and "set (elements (projects_h s) (addProject_h rnd t d n s h))
           \<subseteq> {..<nextRef (addProject_h rnd t d n s h)}"
proof -
  note a = addProject_h_array [OF assms(1,2), of rnd t d n]
  have "map ((objects h)(nextRef h \<mapsto> newProject rnd t d n)) (elements (projects_h s) h)
        = map (objects h) (elements (projects_h s) h)"
    using assms(3) by (intro map_cong) auto
  then show "readArray (projects_h s) (addProject_h rnd t d n s h) =
           readArray (projects_h s) h @ [Some (newProject rnd t d n)]"
    by (simp add: readArray_def a)
  have "objects (addProject_h rnd t d n s h) (nextRef h) \<noteq> None"
    by (simp add: a)
  then have "nextRef h < nextRef (addProject_h rnd t d n s h)"
    using a(3) unfolding allocated_def by (meson not_le)
  then show "set (elements (projects_h s) (addProject_h rnd t d n s h))
           \<subseteq> {..<nextRef (addProject_h rnd t d n s h)}"
    using assms(3) by (auto simp: a)
qed

lemma readArray_addProjects_h:
  "list_all arrayOnly (listeners_h s) \<Longrightarrow> allocated s h \<Longrightarrow>
   set (elements (projects_h s) h) \<subseteq> {..<nextRef h} \<Longrightarrow>
   readArray (projects_h s) (addProjects_h calls s h) =
     readArray (projects_h s) h @ map Some (created calls)"
proof (induction calls arbitrary: h)
  case Nil
  show ?case by (simp add: created_def)
next
  case (Cons c calls)
  obtain rnd t d n where c: "c = (rnd, t, d, n)" by (cases c) auto
  note r = readArray_addProject_h [OF Cons.prems, of rnd t d n]
  note a = addProject_h_array(3) [OF Cons.prems(1,2), of rnd t d n]
  show ?case
    using Cons.IH [OF Cons.prems(1) a r(2)] by (simp add: c r(1) created_def)
qed

lemma readArray_slice: "readArray (fst (slice a h)) (snd (slice a h)) = readArray a h"
  by (simp add: slice_def readArray_def elements_def)

text \<open>
  Claim C3, as stated, fails: the snapshot is a new array of the same objects. A
  subscriber that sets the title of the first record of its snapshot has changed the
  record the store holds: the store's contents differ from those after the same call
  with no subscriber.
\<close>

theorem snapshot_record_write_changes_store:
  "(case getInstance_h [retitle] of (s, h) \<Rightarrow>
      readArray (projects_h s) (addProject_h ''0.42'' ''Build API'' ''desc'' (Fin 3) s h))
   \<noteq> (case getInstance_h [] of (s, h) \<Rightarrow>
      readArray (projects_h s) (addProject_h ''0.42'' ''Build API'' ''desc'' (Fin 3) s h))"
  by (simp add: getInstance_h_def addProject_h_def readArray_def elements_def slice_def
      retitle_def newProject_def Let_def)

text \<open>
  Claim C3, amended. The snapshot is an independent copy of the store's array: when
  subscribers write only to the arrays they receive (any such writes), then after any
  sequence of calls the store holds its former records followed by the created ones,
  unchanged and in order, and so does the next snapshot taken of it.
\<close>

theorem snapshot_array_writes_leave_store:
  assumes "list_all arrayOnly (listeners_h s)" and "allocated s h"
    and "set (elements (projects_h s) h) \<subseteq> {..<nextRef h}"
  shows "readArray (projects_h s) (addProjects_h calls s h) =
           readArray (projects_h s) h @ map Some (created calls) \<and>
         readArray (fst (slice (projects_h s) (addProjects_h calls s h)))
             (snd (slice (projects_h s) (addProjects_h calls s h))) =
           readArray (projects_h s) h @ map Some (created calls)"
  using readArray_addProjects_h [OF assms] by (simp add: readArray_slice)

theorem snapshot_array_writes_leave_store_witness:
  "readArray 0 (addProjects_h [(''0.42'', ''Build API'', ''desc'', Fin 3)]
      (fst (getInstance_h [pushAgain])) (snd (getInstance_h [pushAgain]))) =
   [Some (newProject ''0.42'' ''Build API'' ''desc'' (Fin 3))]"
  using snapshot_array_writes_leave_store
    [of "fst (getInstance_h [pushAgain])" "snd (getInstance_h [pushAgain])"
      "[(''0.42'', ''Build API'', ''desc'', Fin 3)]"]
  by (simp add: getInstance_h_def arrayOnly_def pushAgain_def allocated_def elements_def
      readArray_def created_def)

text \<open>
  The two models of the store agree: with subscribers that write to their arrays
  only, the records read from the heap are the records of the list model.
\<close>

lemma heap_store_agrees:
  "list_all arrayOnly ls \<Longrightarrow>
   readArray (projects_h (fst (getInstance_h ls)))
     (addProjects_h calls (fst (getInstance_h ls)) (snd (getInstance_h ls))) =
   map Some (projects (fst (addProjects calls (getInstance, w))))"
  using readArray_addProjects_h [of "fst (getInstance_h ls)" "snd (getInstance_h ls)" calls]
  by (simp add: fst_addProjects getInstance_def getInstance_h_def allocated_def
      readArray_def elements_def)

end
